theory Spec2Isabelle
  imports Main
begin

section \<open>Orion pack: base action helpers\<close>

text \<open>
  A shallow embedding of \<^verbatim>\<open>actions/lib/actions.py\<close> (class \<^verbatim>\<open>OrionBaseAction\<close>) and of
  \<^verbatim>\<open>actions/get_node_id.py\<close> (class \<^verbatim>\<open>GetNodeId\<close>).

  Every raise of the source is a value \<open>Inl e\<close> of a sum type. The query client is an
  external collaborator: it is a function from the history of requests to an answer, and
  the requests issued and the sleeps taken are threaded through the helpers as a state.
\<close>

subsection \<open>Values, rows and responses\<close>

text \<open>The scalars a decoded JSON row holds.\<close>

datatype pyval = PNone | PBool bool | PInt int | PStr string

text \<open>
  A row is a dict from column name to scalar, a response a dict whose entry
  \<^verbatim>\<open>results\<close>, when present, is the list of rows. Keyword arguments of a query are a
  dict from parameter name to scalar.
\<close>

type_synonym row = "(string \<times> pyval) list"
type_synonym response = "(string \<times> row list) list"
type_synonym kargs = "(string \<times> pyval) list"
type_synonym request = "string \<times> kargs"

text \<open>
  The exceptions of the source. \<open>PyException p d\<close> is \<^verbatim>\<open>Exception(p + str(d))\<close>:
  it keeps the response instead of its rendering. \<open>TransportError\<close> stands for
  whatever the query client raises.
\<close>

datatype py_error =
    ValueError string
  | KeyError string
  | IndexError
  | TypeError string
  | UnboundLocalError string
  | PyException string response
  | TransportError string

text \<open>Subscripting a dict with a string key: a missing key raises \<^verbatim>\<open>KeyError\<close>.\<close>

definition getitem :: "(string \<times> 'a) list \<Rightarrow> string \<Rightarrow> py_error + 'a" where
  "getitem d k = (case map_of d k of None \<Rightarrow> Inl (KeyError k) | Some v \<Rightarrow> Inr v)"

text \<open>Python's \<^verbatim>\<open>v == k\<close> for an integer literal \<open>k\<close>: \<^verbatim>\<open>True == 1\<close> holds.\<close>

fun py_eq_int :: "pyval \<Rightarrow> int \<Rightarrow> bool" where
  "py_eq_int (PInt i) k = (i = k)"
| "py_eq_int (PBool b) k = ((if b then 1 else 0) = k)"
| "py_eq_int PNone k = False"
| "py_eq_int (PStr s) k = False"

subsection \<open>Configuration\<close>

text \<open>
  The pack's \<^verbatim>\<open>config.yaml\<close>: \<^verbatim>\<open>orion.<platform>.{host,user,password}\<close>,
  \<^verbatim>\<open>defaults.platform\<close> and \<^verbatim>\<open>defaults.snmp.<name>\<close>. A key that is absent is
  \<open>None\<close>; subscripting it raises \<^verbatim>\<open>KeyError\<close>.
\<close>

record platform_entry =
  host :: "string option"
  user :: "string option"
  password :: "string option"

record defaults_entry =
  platform :: "string option"
  snmp :: "(string \<rightharpoonup> string) option"

record config =
  orion :: "(string \<rightharpoonup> platform_entry) option"
  defaults :: "defaults_entry option"

text \<open>Subscripting a key of the configuration.\<close>

definition cfg_key :: "string \<Rightarrow> 'a option \<Rightarrow> py_error + 'a" where
  "cfg_key k v = (case v of None \<Rightarrow> Inl (KeyError k) | Some x \<Rightarrow> Inr x)"

text \<open>The handle \<^verbatim>\<open>SwisClient(host, user, password)\<close>.\<close>

record swis_client =
  client_host :: string
  client_user :: string
  client_password :: string

text \<open>\<^verbatim>\<open>self.config['defaults']['platform']\<close>\<close>

definition default_platform :: "config \<Rightarrow> py_error + string" where
  "default_platform cfg =
     (case cfg_key ''defaults'' (defaults cfg) of
        Inl e \<Rightarrow> Inl e
      | Inr d \<Rightarrow> cfg_key ''platform'' (platform d))"

text \<open>
  The three subscripts \<^verbatim>\<open>self.config['orion'][platform][...]\<close> for host, user and
  password, evaluated in that order as the arguments of \<^verbatim>\<open>SwisClient\<close>.
\<close>

definition platform_field ::
  "config \<Rightarrow> string \<Rightarrow> string \<Rightarrow> (platform_entry \<Rightarrow> string option) \<Rightarrow> py_error + string" where
  "platform_field cfg p k sel =
     (case cfg_key ''orion'' (orion cfg) of
        Inl e \<Rightarrow> Inl e
      | Inr m \<Rightarrow>
          (case cfg_key p (m p) of
             Inl e \<Rightarrow> Inl e
           | Inr entry \<Rightarrow> cfg_key k (sel entry)))"

definition SwisClient_of :: "config \<Rightarrow> string \<Rightarrow> py_error + swis_client" where
  "SwisClient_of cfg p =
     (case platform_field cfg p ''host'' host of
        Inl e \<Rightarrow> Inl e
      | Inr h \<Rightarrow>
          (case platform_field cfg p ''user'' user of
             Inl e \<Rightarrow> Inl e
           | Inr u \<Rightarrow>
               (case platform_field cfg p ''password'' password of
                  Inl e \<Rightarrow> Inl e
                | Inr pw \<Rightarrow>
                    Inr \<lparr>client_host = h, client_user = u, client_password = pw\<rparr>)))"

text \<open>
  \<^verbatim>\<open>OrionBaseAction.connect\<close>. The argument is \<open>None\<close> or a platform name. The first
  handler catches \<^verbatim>\<open>IndexError\<close> only, the second \<^verbatim>\<open>KeyError\<close> only; any other error
  leaves the function. On success the new client handle is returned beside the
  platform name (the source stores it in \<^verbatim>\<open>self.client\<close>).
\<close>

definition connect :: "config \<Rightarrow> string option \<Rightarrow> py_error + (string \<times> swis_client)" where
  "connect cfg platform_arg =
     (case (case platform_arg of
              None \<Rightarrow>
                (case default_platform cfg of
                   Inl e \<Rightarrow>
                     if e = IndexError then Inl (ValueError ''No default Orion platform.'')
                     else Inl e
                 | Inr p \<Rightarrow> Inr p)
            | Some p \<Rightarrow> Inr p) of
        Inl e \<Rightarrow> Inl e
      | Inr p \<Rightarrow>
          (case SwisClient_of cfg p of
             Inl e \<Rightarrow>
               (case e of
                  KeyError k \<Rightarrow> Inl (ValueError ''Orion host details not in the config.yaml'')
                | _ \<Rightarrow> Inl e)
           | Inr c \<Rightarrow> Inr (p, c)))"

subsection \<open>SNMP community resolution\<close>

text \<open>\<^verbatim>\<open>self.config['defaults']['snmp'][std_community]\<close>\<close>

definition std_community_entry :: "config \<Rightarrow> string \<Rightarrow> py_error + string" where
  "std_community_entry cfg std =
     (case cfg_key ''defaults'' (defaults cfg) of
        Inl e \<Rightarrow> Inl e
      | Inr d \<Rightarrow>
          (case cfg_key ''snmp'' (snmp d) of
             Inl e \<Rightarrow> Inl e
           | Inr m \<Rightarrow> cfg_key std (m std)))"

text \<open>\<^verbatim>\<open>OrionBaseAction.get_snmp_community\<close>\<close>

definition get_snmp_community ::
  "config \<Rightarrow> string option \<Rightarrow> string option \<Rightarrow> py_error + string" where
  "get_snmp_community cfg community std_community =
     (case community of
        Some c \<Rightarrow> Inr c
      | None \<Rightarrow>
          (case std_community of
             Some std \<Rightarrow>
               (case std_community_entry cfg std of
                  Inl e \<Rightarrow>
                    (case e of
                       KeyError k \<Rightarrow> Inl (ValueError ''Invalid standard community'')
                     | _ \<Rightarrow> Inl e)
                | Inr v \<Rightarrow> Inr v)
           | None \<Rightarrow> Inl (ValueError ''Need one of community or std_community'')))"

text \<open>
  The standard-community mapping of a configuration: \<^verbatim>\<open>defaults.snmp\<close>, empty when the
  configuration has no such entry.
\<close>

definition snmp_mapping :: "config \<Rightarrow> (string \<rightharpoonup> string)" where
  "snmp_mapping cfg =
     (case defaults cfg of
        None \<Rightarrow> Map.empty
      | Some d \<Rightarrow> (case snmp d of None \<Rightarrow> Map.empty | Some m \<Rightarrow> m))"

subsection \<open>The query client\<close>

text \<open>
  The state the helpers thread: the requests issued to the platform so far, oldest
  first, and the delays slept so far.
\<close>

record world =
  issued :: "request list"
  slept :: "int list"

definition world0 :: world where
  "world0 = \<lparr>issued = [], slept = []\<rparr>"

text \<open>
  The platform behind \<^verbatim>\<open>self.client\<close>: given every request issued so far, the last
  one being the current one, it answers with a response or raises.
\<close>

type_synonym server = "request list \<Rightarrow> py_error + response"

text \<open>\<^verbatim>\<open>OrionBaseAction.query\<close>\<close>

definition query ::
  "server \<Rightarrow> string \<Rightarrow> kargs \<Rightarrow> world \<Rightarrow> (py_error + response) \<times> world" where
  "query srv swql kargs w =
     (let log = issued w @ [(swql, kargs)] in (srv log, w\<lparr>issued := log\<rparr>))"

text \<open>\<^verbatim>\<open>time.sleep\<close>: a negative delay raises \<^verbatim>\<open>ValueError\<close>.\<close>

definition sleep :: "int \<Rightarrow> world \<Rightarrow> (py_error + unit) \<times> world" where
  "sleep d w =
     (if d < 0 then (Inl (ValueError ''sleep length must be non-negative''), w)
      else (Inr (), w\<lparr>slept := slept w @ [d]\<rparr>))"

text \<open>The line break and the quote of the source's string literals.\<close>

definition newline :: string where
  "newline = [CHR 0x0A]"

definition quote :: string where
  "quote = [CHR 0x27]"

subsection \<open>Node resolution\<close>

text \<open>
  Modelled from the spec: class \<^verbatim>\<open>OrionNode\<close> of \<^verbatim>\<open>lib/node.py\<close>, which is not among
  the sources. The specification gives the node record the nullable fields
  \<^verbatim>\<open>npm_id\<close>, \<^verbatim>\<open>uri\<close>, \<^verbatim>\<open>ip_address\<close>, \<^verbatim>\<open>caption\<close> and \<^verbatim>\<open>ncm_id\<close>, created fresh
  with every field unset, and issues the secondary lookup if \<^verbatim>\<open>npm_id\<close> is set: that
  is the property \<^verbatim>\<open>npm\<close>. An unset field holds \<open>PNone\<close>.
\<close>

record OrionNode =
  npm_id :: pyval
  uri :: pyval
  ip_address :: pyval
  caption :: pyval
  ncm_id :: pyval

text \<open>
  Modelled from the spec: the constructor \<^verbatim>\<open>OrionNode()\<close>, a record with every field
  unset.
\<close>

definition OrionNode_new :: OrionNode where
  "OrionNode_new =
     \<lparr>npm_id = PNone, uri = PNone, ip_address = PNone, caption = PNone, ncm_id = PNone\<rparr>"

text \<open>
  Modelled from the spec: the property \<^verbatim>\<open>OrionNode.npm\<close>, which guards the secondary
  lookup: \<^verbatim>\<open>npm_id\<close> is set.
\<close>

definition npm :: "OrionNode \<Rightarrow> bool" where
  "npm n = (npm_id n \<noteq> PNone)"

text \<open>The two queries of \<^verbatim>\<open>get_node\<close>, with the indentation of the source.\<close>

definition nodes_swql :: "string \<Rightarrow> string" where
  "nodes_swql query_for_where =
     ''SELECT NodeID, Uri, IPAddress, Caption'' @ newline @
     ''        FROM Orion.Nodes'' @ newline @
     ''        WHERE '' @ query_for_where @ ''=@query_on''"

definition cirrus_swql :: string where
  "cirrus_swql =
     ''SELECT NodeID'' @ newline @
     ''            FROM Cirrus.Nodes'' @ newline @
     ''            WHERE CoreNodeID=@CoreNodeID''"

text \<open>\<^verbatim>\<open>"Muliple Nodes match '{}' Caption".format(node)\<close>\<close>

definition multiple_nodes_msg :: "string \<Rightarrow> string" where
  "multiple_nodes_msg node =
     ''Muliple Nodes match '' @ quote @ node @ quote @ '' Caption''"

text \<open>
  The body of the first \<^verbatim>\<open>try\<close> of \<^verbatim>\<open>get_node\<close>: four subscripts of the single
  row, each assigned to a field. Subscripting a dict raises \<^verbatim>\<open>KeyError\<close>, never the
  \<^verbatim>\<open>IndexError\<close> that the handler catches.
\<close>

definition assign_primary :: "row \<Rightarrow> OrionNode \<Rightarrow> py_error + OrionNode" where
  "assign_primary r n =
     (case getitem r ''NodeID'' of
        Inl e \<Rightarrow> Inl e
      | Inr a \<Rightarrow>
          (case getitem r ''Uri'' of
             Inl e \<Rightarrow> Inl e
           | Inr b \<Rightarrow>
               (case getitem r ''IPAddress'' of
                  Inl e \<Rightarrow> Inl e
                | Inr c \<Rightarrow>
                    (case getitem r ''Caption'' of
                       Inl e \<Rightarrow> Inl e
                     | Inr d \<Rightarrow>
                         Inr (n\<lparr>npm_id := a, uri := b, ip_address := c, caption := d\<rparr>)))))"

text \<open>Lines 80 to 93: no row, one row, or several rows of the primary query.\<close>

definition primary_rows :: "string \<Rightarrow> row list \<Rightarrow> OrionNode \<Rightarrow> py_error + OrionNode" where
  "primary_rows node rs n =
     (if length rs = 1 then
        (case assign_primary (rs ! 0) n of
           Inl e \<Rightarrow> if e = IndexError then Inr n else Inl e
         | Inr n' \<Rightarrow> Inr n')
      else if length rs \<ge> 2 then Inl (ValueError (multiple_nodes_msg node))
      else Inr n)"

text \<open>
  Lines 95 to 113: the lookup in the NCM table, issued when \<^verbatim>\<open>orion_node.npm\<close> holds.
  A response without \<^verbatim>\<open>results\<close> is logged and tolerated.
\<close>

definition ncm_lookup :: "server \<Rightarrow> OrionNode \<Rightarrow> world \<Rightarrow> (py_error + OrionNode) \<times> world" where
  "ncm_lookup srv n w =
     (if npm n then
        (case query srv cirrus_swql [(''CoreNodeID'', npm_id n)] w of
           (Inl e, w1) \<Rightarrow> (Inl e, w1)
         | (Inr data, w1) \<Rightarrow>
             (case map_of data ''results'' of
                None \<Rightarrow> (Inr n, w1)
              | Some rs \<Rightarrow>
                  if length rs = 1 then
                    (case getitem (rs ! 0) ''NodeID'' of
                       Inl e \<Rightarrow> if e = IndexError then (Inr n, w1) else (Inl e, w1)
                     | Inr v \<Rightarrow> (Inr (n\<lparr>ncm_id := v\<rparr>), w1))
                  else (Inr n, w1)))
      else (Inr n, w))"

text \<open>
  \<^verbatim>\<open>OrionBaseAction.get_node\<close>. The classifier \<^verbatim>\<open>is_ip\<close> of \<^verbatim>\<open>lib/utils.py\<close> is
  not among the sources and is a parameter.
\<close>

definition get_node ::
  "(string \<Rightarrow> bool) \<Rightarrow> server \<Rightarrow> string \<Rightarrow> world \<Rightarrow> (py_error + OrionNode) \<times> world" where
  "get_node is_ip srv node w =
     (let orion_node = OrionNode_new;
          query_for_where = (if is_ip node then ''IPAddress'' else ''Caption'')
      in case query srv (nodes_swql query_for_where) [(''query_on'', PStr node)] w of
           (Inl e, w1) \<Rightarrow> (Inl e, w1)
         | (Inr data, w1) \<Rightarrow>
             (case map_of data ''results'' of
                None \<Rightarrow> (Inl (PyException ''No results from Orion: '' data), w1)
              | Some rs \<Rightarrow>
                  (case primary_rows node rs orion_node of
                     Inl e \<Rightarrow> (Inl e, w1)
                   | Inr n \<Rightarrow> ncm_lookup srv n w1)))"

text \<open>The requests \<^verbatim>\<open>get_node\<close> issues, for the statements below.\<close>

definition primary_request :: "(string \<Rightarrow> bool) \<Rightarrow> string \<Rightarrow> request" where
  "primary_request is_ip node =
     (nodes_swql (if is_ip node then ''IPAddress'' else ''Caption''),
      [(''query_on'', PStr node)])"

definition ncm_request :: "pyval \<Rightarrow> request" where
  "ncm_request core_id = (cirrus_swql, [(''CoreNodeID'', core_id)])"

text \<open>
  The answer to the NCM lookup is usable: the platform answers, and a single row it
  returns carries the column \<^verbatim>\<open>NodeID\<close>.
\<close>

definition ncm_answer_ok :: "py_error + response \<Rightarrow> bool" where
  "ncm_answer_ok ans =
     (case ans of
        Inl e \<Rightarrow> False
      | Inr data \<Rightarrow>
          (case map_of data ''results'' of
             None \<Rightarrow> True
           | Some rs \<Rightarrow> length rs = 1 \<longrightarrow> map_of (rs ! 0) ''NodeID'' \<noteq> None))"

subsection \<open>SNMP credential lookup\<close>

definition credential_swql :: string where
  "credential_swql =
     ''SELECT ID FROM Orion.Credential'' @ newline @
     ''        WHERE CredentialType=@CredentialType and Name=@name''"

definition SnmpCredentialsV2 :: string where
  "SnmpCredentialsV2 = ''SolarWinds.Orion.Core.Models.Credentials.SnmpCredentialsV2''"

text \<open>A name that may be \<^verbatim>\<open>None\<close>, as a query parameter.\<close>

definition str_param :: "string option \<Rightarrow> pyval" where
  "str_param v = (case v of None \<Rightarrow> PNone | Some s \<Rightarrow> PStr s)"

text \<open>
  Lines 173 to 176: the input resolved as a standard community, and used as it is when
  that raises \<^verbatim>\<open>ValueError\<close>.
\<close>

definition credential_name :: "config \<Rightarrow> string option \<Rightarrow> py_error + string option" where
  "credential_name cfg community =
     (case get_snmp_community cfg None community of
        Inl e \<Rightarrow> (case e of ValueError m \<Rightarrow> Inr community | _ \<Rightarrow> Inl e)
      | Inr v \<Rightarrow> Inr (Some v))"

text \<open>\<^verbatim>\<open>OrionBaseAction.get_snmp_cred_id\<close>\<close>

definition get_snmp_cred_id ::
  "config \<Rightarrow> server \<Rightarrow> string option \<Rightarrow> world \<Rightarrow> (py_error + pyval) \<times> world" where
  "get_snmp_cred_id cfg srv community w =
     (case credential_name cfg community of
        Inl e \<Rightarrow> (Inl e, w)
      | Inr name \<Rightarrow>
          (case query srv credential_swql
                  [(''CredentialType'', PStr SnmpCredentialsV2), (''name'', str_param name)] w of
             (Inl e, w1) \<Rightarrow> (Inl e, w1)
           | (Inr orion_data, w1) \<Rightarrow>
               (case getitem orion_data ''results'' of
                  Inl e \<Rightarrow> (Inl e, w1)
                | Inr rs \<Rightarrow>
                    if length rs = 1 then (getitem (rs ! 0) ''ID'', w1)
                    else (Inl (ValueError ''Failed to lookup community in Orion.Credential!''),
                          w1))))"

definition credential_request :: "string option \<Rightarrow> request" where
  "credential_request name =
     (credential_swql,
      [(''CredentialType'', PStr SnmpCredentialsV2), (''name'', str_param name)])"

text \<open>
  The name a credential is looked up under: the entry of the standard-community
  mapping for the input, and the input itself when the mapping has no such entry.
\<close>

definition resolved_name :: "config \<Rightarrow> string option \<Rightarrow> string option" where
  "resolved_name cfg community =
     (case community of
        None \<Rightarrow> None
      | Some c \<Rightarrow> (case snmp_mapping cfg c of None \<Rightarrow> Some c | Some v \<Rightarrow> Some v))"

subsection \<open>Waiting for an NCM transfer\<close>

definition transfer_swql :: string where
  "transfer_swql =
     ''SELECT TransferID, NodeID, Action, RequestedConfigType,'' @ newline @
     ''            RequestedScript, RequestedReboot, ConfigID, TransferProtocol,'' @ newline @
     ''            Status, ErrorMessage, DeviceOutput, DateTime, UserName'' @ newline @
     ''            FROM NCM.TransferResults'' @ newline @
     ''            WHERE TransferID=@transfer_id''"

definition transfer_request :: "pyval \<Rightarrow> request" where
  "transfer_request transfer_id = (transfer_swql, [(''transfer_id'', transfer_id)])"

text \<open>
  \<^verbatim>\<open>transfer_data['results'][0][column]\<close>: the key \<^verbatim>\<open>results\<close> may be missing, the
  list may be empty, the column may be missing.
\<close>

definition first_row_item :: "response \<Rightarrow> string \<Rightarrow> py_error + pyval" where
  "first_row_item transfer_data column =
     (case getitem transfer_data ''results'' of
        Inl e \<Rightarrow> Inl e
      | Inr rs \<Rightarrow>
          (case rs of
             [] \<Rightarrow> Inl IndexError
           | r # _ \<Rightarrow> getitem r column))"

text \<open>
  The \<^verbatim>\<open>while True\<close> loop of \<^verbatim>\<open>get_ncm_transfer_results\<close>. It leaves with the status
  text and the response of the last poll, or with an error; a platform that answers
  status 1 for ever keeps it running, which is the value \<open>None\<close>.
\<close>

partial_function (option) poll_transfer ::
  "server \<Rightarrow> pyval \<Rightarrow> int \<Rightarrow> world \<Rightarrow> ((py_error + string \<times> response) \<times> world) option" where
  "poll_transfer srv transfer_id sleep_delay w =
     (case query srv transfer_swql [(''transfer_id'', transfer_id)] w of
        (Inl e, w1) \<Rightarrow> Some (Inl e, w1)
      | (Inr transfer_data, w1) \<Rightarrow>
          (case first_row_item transfer_data ''Status'' of
             Inl e \<Rightarrow> Some (Inl e, w1)
           | Inr status \<Rightarrow>
               if py_eq_int status 1 then
                 (case sleep sleep_delay w1 of
                    (Inl e, w2) \<Rightarrow> Some (Inl e, w2)
                  | (Inr u, w2) \<Rightarrow> poll_transfer srv transfer_id sleep_delay w2)
               else if py_eq_int status 2 then Some (Inr (''Complete'', transfer_data), w1)
               else if py_eq_int status 3 then Some (Inr (''Error'', transfer_data), w1)
               else Some (Inr (''Unknown'', transfer_data), w1)))"

declare poll_transfer.simps [code]

text \<open>
  Lines 248 to 252: the five columns copied from the first row of the last response
  into the dict \<^verbatim>\<open>ts\<close>, which holds the status text already.
\<close>

definition copy_column ::
  "response \<Rightarrow> string \<Rightarrow> py_error + (string \<rightharpoonup> pyval) \<Rightarrow> py_error + (string \<rightharpoonup> pyval)" where
  "copy_column transfer_data column ts =
     (case ts of
        Inl e \<Rightarrow> Inl e
      | Inr m \<Rightarrow>
          (case first_row_item transfer_data column of
             Inl e \<Rightarrow> Inl e
           | Inr v \<Rightarrow> Inr (m(column \<mapsto> v))))"

definition transfer_summary :: "string \<Rightarrow> response \<Rightarrow> py_error + (string \<rightharpoonup> pyval)" where
  "transfer_summary status_text transfer_data =
     copy_column transfer_data ''UserName''
       (copy_column transfer_data ''DeviceOutput''
         (copy_column transfer_data ''ErrorMessage''
           (copy_column transfer_data ''RequestedReboot''
             (copy_column transfer_data ''RequestedScript''
               (Inr [''status'' \<mapsto> PStr status_text])))))"

text \<open>\<^verbatim>\<open>OrionBaseAction.get_ncm_transfer_results\<close>\<close>

definition get_ncm_transfer_results ::
  "server \<Rightarrow> pyval \<Rightarrow> int \<Rightarrow> world \<Rightarrow> ((py_error + (string \<rightharpoonup> pyval)) \<times> world) option" where
  "get_ncm_transfer_results srv transfer_id sleep_delay w =
     (case poll_transfer srv transfer_id sleep_delay w of
        None \<Rightarrow> None
      | Some (Inl e, w1) \<Rightarrow> Some (Inl e, w1)
      | Some (Inr (status_text, transfer_data), w1) \<Rightarrow>
          Some (transfer_summary status_text transfer_data, w1))"





subsection \<open>The action \<^verbatim>\<open>get_node_id\<close>\<close>

text \<open>\<^verbatim>\<open>'%s' % matchstring\<close>: \<^verbatim>\<open>None\<close> is rendered as the text \<^verbatim>\<open>None\<close>.\<close>

definition str_of :: "string option \<Rightarrow> string" where
  "str_of v = (case v of None \<Rightarrow> ''None'' | Some s \<Rightarrow> s)"

text \<open>Lines 27 to 31.\<close>

definition node_id_swql :: "string option \<Rightarrow> string option \<Rightarrow> string" where
  "node_id_swql matchtype matchstring =
     ''SELECT nodeid, sysname, caption FROM Orion.Nodes'' @
     (if matchtype = Some ''sysname''
      then '' where sysname = '' @ quote @ str_of matchstring @ quote
      else if matchtype = Some ''caption''
      then '' where Caption = '' @ quote @ str_of matchstring @ quote
      else [])"

text \<open>
  Lines 33 to 39. When the query raises, the bare \<^verbatim>\<open>except\<close> runs
  \<^verbatim>\<open>orion_data['results'] = "empty"\<close>; the local \<^verbatim>\<open>orion_data\<close> was never bound, so
  the handler itself raises \<^verbatim>\<open>UnboundLocalError\<close>.
\<close>

definition run_query ::
  "server \<Rightarrow> string option \<Rightarrow> string option \<Rightarrow> world \<Rightarrow> (py_error + response) \<times> world" where
  "run_query srv matchtype matchstring w =
     (case query srv (node_id_swql matchtype matchstring) [] w of
        (Inl e, w1) \<Rightarrow> (Inl (UnboundLocalError ''orion_data''), w1)
      | (Inr orion_data, w1) \<Rightarrow> (Inr orion_data, w1))"

text \<open>
  Line 25, \<^verbatim>\<open>self.connect()\<close>: \<^verbatim>\<open>connect\<close> is declared with the required positional
  parameter \<^verbatim>\<open>platform\<close> and is called without it, so the call raises \<^verbatim>\<open>TypeError\<close>
  before the body of \<^verbatim>\<open>connect\<close> runs. The wording of the message is the
  interpreter's and varies with its version.
\<close>

definition connect_without_argument :: "py_error + (string \<times> swis_client)" where
  "connect_without_argument =
     Inl (TypeError ''connect() missing 1 required positional argument: platform'')"

text \<open>\<^verbatim>\<open>GetNodeId.run\<close>\<close>

definition run ::
  "server \<Rightarrow> string option \<Rightarrow> string option \<Rightarrow> world \<Rightarrow> (py_error + response) \<times> world" where
  "run srv matchtype matchstring w =
     (case connect_without_argument of
        Inl e \<Rightarrow> (Inl e, w)
      | Inr c \<Rightarrow> run_query srv matchtype matchstring w)"

subsection \<open>Example configurations\<close>

text \<open>
  A configuration that names a default platform and maps the standard
  name \<^verbatim>\<open>ro\<close> to the community \<^verbatim>\<open>s3cret\<close>.
\<close>

definition cfg_example :: config where
  "cfg_example =
     \<lparr>orion = Some [''lab'' \<mapsto> \<lparr>host = Some ''orion.lab'', user = Some ''svc'',
                                 password = Some ''pw''\<rparr>],
      defaults = Some \<lparr>platform = Some ''lab'', snmp = Some [''ro'' \<mapsto> ''s3cret'']\<rparr>\<rparr>"

text \<open>A configuration whose \<^verbatim>\<open>defaults\<close> entry names no default platform.\<close>

definition cfg_no_default :: config where
  "cfg_no_default =
     \<lparr>orion = Some [''lab'' \<mapsto> \<lparr>host = Some ''orion.lab'', user = Some ''svc'',
                                 password = Some ''pw''\<rparr>],
      defaults = Some \<lparr>platform = None, snmp = Some [''ro'' \<mapsto> ''s3cret'']\<rparr>\<rparr>"

subsection \<open>Example platforms\<close>

text \<open>A classifier that takes one address for an IP literal.\<close>

definition only_ip :: "string \<Rightarrow> bool" where
  "only_ip s = (s = ''10.0.0.1'')"

text \<open>A row of the inventory table.\<close>

definition node_row :: row where
  "node_row =
     [(''NodeID'', PInt 5), (''Uri'', PStr ''swis://orion/Orion.Nodes/NodeID=5''),
      (''IPAddress'', PStr ''10.0.0.1''), (''Caption'', PStr ''sw1'')]"

text \<open>
  A platform that answers the first request with the given inventory rows and every
  later request with the given NCM response.
\<close>

definition inventory :: "row list \<Rightarrow> response \<Rightarrow> server" where
  "inventory primary ncm log =
     (if length log = 1 then Inr [(''results'', primary)] else Inr ncm)"

text \<open>A platform that answers every request with the given rows.\<close>

definition credentials :: "row list \<Rightarrow> server" where
  "credentials rs log = Inr [(''results'', rs)]"

text \<open>
  A platform whose credential table holds the given rows under one name of the SNMP v2
  type: it answers the credential query for that name with those rows, and every other
  request with no row.
\<close>

definition credential_table :: "string \<Rightarrow> row list \<Rightarrow> server" where
  "credential_table name rs log =
     (if log \<noteq> [] \<and>
         last log =
           (''SELECT ID FROM Orion.Credential'' @ [CHR 0x0A] @
            ''        WHERE CredentialType=@CredentialType and Name=@name'',
            [(''CredentialType'',
              PStr ''SolarWinds.Orion.Core.Models.Credentials.SnmpCredentialsV2''),
             (''name'', PStr name)])
      then Inr [(''results'', rs)]
      else Inr [(''results'', [])])"

section \<open>Properties\<close>

subsection \<open>Community resolution\<close>

lemma std_community_entry_Some:
  "snmp_mapping cfg std = Some v \<Longrightarrow> std_community_entry cfg std = Inr v"
  by (auto simp: std_community_entry_def snmp_mapping_def cfg_key_def split: option.splits)

lemma std_community_entry_None:
  "snmp_mapping cfg std = None \<Longrightarrow> \<exists>k. std_community_entry cfg std = Inl (KeyError k)"
  by (auto simp: std_community_entry_def snmp_mapping_def cfg_key_def split: option.splits)

text \<open>
  Claim C6. An explicit community is returned unchanged, whatever the standard name is.
  With no explicit community, a standard name is resolved through the configuration's
  \<^verbatim>\<open>defaults.snmp\<close> mapping: its entry is returned, and a name that is not in the mapping
  fails with \<^verbatim>\<open>ValueError("Invalid standard community")\<close>. With neither argument the
  call fails with \<^verbatim>\<open>ValueError("Need one of community or std_community")\<close>.
\<close>

theorem get_snmp_community_precedence:
  "get_snmp_community cfg (Some c) std_community = Inr c
   \<and> get_snmp_community cfg None (Some std) =
       (case snmp_mapping cfg std of
          Some v \<Rightarrow> Inr v
        | None \<Rightarrow> Inl (ValueError ''Invalid standard community''))
   \<and> get_snmp_community cfg None None =
       Inl (ValueError ''Need one of community or std_community'')"
proof (intro conjI)
  show "get_snmp_community cfg (Some c) std_community = Inr c"
    by (simp add: get_snmp_community_def)
next
  show "get_snmp_community cfg None (Some std) =
       (case snmp_mapping cfg std of
          Some v \<Rightarrow> Inr v
        | None \<Rightarrow> Inl (ValueError ''Invalid standard community''))"
  proof (cases "snmp_mapping cfg std")
    case None
    from std_community_entry_None [OF None]
    obtain k where "std_community_entry cfg std = Inl (KeyError k)" ..
    with None show ?thesis by (simp add: get_snmp_community_def)
  next
    case (Some v)
    from std_community_entry_Some [OF Some] Some
    show ?thesis by (simp add: get_snmp_community_def)
  qed
next
  show "get_snmp_community cfg None None =
       Inl (ValueError ''Need one of community or std_community'')"
    by (simp add: get_snmp_community_def)
qed

theorem get_snmp_community_precedence_witness:
  "get_snmp_community cfg_example (Some ''public'') None = Inr ''public''
   \<and> get_snmp_community cfg_example None (Some ''ro'') = Inr ''s3cret''
   \<and> get_snmp_community cfg_example None (Some ''rw'') =
       Inl (ValueError ''Invalid standard community'')
   \<and> get_snmp_community cfg_example None None =
       Inl (ValueError ''Need one of community or std_community'')"
  using get_snmp_community_precedence [of cfg_example "''public''" None "''ro''"]
        get_snmp_community_precedence [of cfg_example "''public''" None "''rw''"]
  by (simp add: snmp_mapping_def cfg_example_def)

subsection \<open>Connecting without a platform name\<close>

lemma default_platform_error:
  "default_platform cfg = Inl e \<Longrightarrow> \<exists>k. e = KeyError k"
  by (auto simp: default_platform_def cfg_key_def split: option.splits)

lemma platform_field_error:
  "platform_field cfg p k sel = Inl e \<Longrightarrow> \<exists>k'. e = KeyError k'"
  by (auto simp: platform_field_def cfg_key_def split: option.splits)

lemma SwisClient_of_error:
  "SwisClient_of cfg p = Inl e \<Longrightarrow> \<exists>k. e = KeyError k"
  by (auto simp: SwisClient_of_def split: sum.splits dest: platform_field_error)

text \<open>
  Claim C2. \<^verbatim>\<open>connect(None)\<close> under a configuration whose \<^verbatim>\<open>defaults\<close> entry names no
  default platform does not fail with the configuration error: the lookup raises
  \<^verbatim>\<open>KeyError('platform')\<close>, the handler catches \<^verbatim>\<open>IndexError\<close> only, and the
  \<^verbatim>\<open>KeyError\<close> leaves \<^verbatim>\<open>connect\<close>. Under no configuration at all does \<^verbatim>\<open>connect(None)\<close>
  fail with \<^verbatim>\<open>ValueError("No default Orion platform.")\<close>. A default that exists is
  substituted.
\<close>

theorem connect_no_default_KeyError:
  "connect cfg_no_default None = Inl (KeyError ''platform'')
   \<and> (\<forall>cfg. connect cfg None \<noteq> Inl (ValueError ''No default Orion platform.''))
   \<and> connect cfg_example None =
       Inr (''lab'', \<lparr>client_host = ''orion.lab'', client_user = ''svc'',
                       client_password = ''pw''\<rparr>)"
proof (intro conjI allI)
  show "connect cfg_no_default None = Inl (KeyError ''platform'')"
    by (simp add: connect_def default_platform_def cfg_key_def cfg_no_default_def)
next
  fix cfg
  show "connect cfg None \<noteq> Inl (ValueError ''No default Orion platform.'')"
    by (auto simp: connect_def split: sum.splits py_error.splits if_splits
        dest: default_platform_error SwisClient_of_error)
next
  show "connect cfg_example None =
       Inr (''lab'', \<lparr>client_host = ''orion.lab'', client_user = ''svc'',
                       client_password = ''pw''\<rparr>)"
    by (simp add: connect_def default_platform_def cfg_key_def cfg_example_def
        SwisClient_of_def platform_field_def)
qed

subsection \<open>Node resolution\<close>

lemma get_node_unfold:
  "get_node is_ip srv node w =
     (case srv (issued w @ [primary_request is_ip node]) of
        Inl e \<Rightarrow> (Inl e, w\<lparr>issued := issued w @ [primary_request is_ip node]\<rparr>)
      | Inr data \<Rightarrow>
          (case map_of data ''results'' of
             None \<Rightarrow> (Inl (PyException ''No results from Orion: '' data),
                       w\<lparr>issued := issued w @ [primary_request is_ip node]\<rparr>)
           | Some rs \<Rightarrow>
               (case primary_rows node rs OrionNode_new of
                  Inl e \<Rightarrow> (Inl e, w\<lparr>issued := issued w @ [primary_request is_ip node]\<rparr>)
                | Inr n \<Rightarrow>
                    ncm_lookup srv n (w\<lparr>issued := issued w @ [primary_request is_ip node]\<rparr>))))"
  by (cases "is_ip node")
     (simp_all add: get_node_def query_def primary_request_def Let_def
        split: sum.splits option.splits)

lemma ncm_lookup_unset: "\<not> npm n \<Longrightarrow> ncm_lookup srv n w = (Inr n, w)"
  by (simp add: ncm_lookup_def)

lemma ncm_lookup_unfold:
  "npm n \<Longrightarrow> ncm_lookup srv n w =
     (case srv (issued w @ [ncm_request (npm_id n)]) of
        Inl e \<Rightarrow> (Inl e, w\<lparr>issued := issued w @ [ncm_request (npm_id n)]\<rparr>)
      | Inr data \<Rightarrow>
          (case map_of data ''results'' of
             None \<Rightarrow> (Inr n, w\<lparr>issued := issued w @ [ncm_request (npm_id n)]\<rparr>)
           | Some rs \<Rightarrow>
               if length rs = 1 then
                 (case map_of (rs ! 0) ''NodeID'' of
                    None \<Rightarrow> (Inl (KeyError ''NodeID''),
                              w\<lparr>issued := issued w @ [ncm_request (npm_id n)]\<rparr>)
                  | Some v \<Rightarrow> (Inr (n\<lparr>ncm_id := v\<rparr>),
                               w\<lparr>issued := issued w @ [ncm_request (npm_id n)]\<rparr>))
               else (Inr n, w\<lparr>issued := issued w @ [ncm_request (npm_id n)]\<rparr>)))"
  by (simp add: ncm_lookup_def query_def ncm_request_def Let_def getitem_def
      split: sum.splits option.splits)

lemma primary_rows_Nil: "primary_rows node [] n = Inr n"
  by (simp add: primary_rows_def)

lemma primary_rows_many:
  "2 \<le> length rs \<Longrightarrow> primary_rows node rs n = Inl (ValueError (multiple_nodes_msg node))"
  by (simp add: primary_rows_def)

lemma primary_rows_single:
  "map_of r ''NodeID'' = Some a \<Longrightarrow> map_of r ''Uri'' = Some b \<Longrightarrow>
   map_of r ''IPAddress'' = Some c \<Longrightarrow> map_of r ''Caption'' = Some d \<Longrightarrow>
   primary_rows node [r] n = Inr (n\<lparr>npm_id := a, uri := b, ip_address := c, caption := d\<rparr>)"
  by (simp add: primary_rows_def assign_primary_def getitem_def)

lemma ncm_lookup_keeps_primary:
  "fst (ncm_lookup srv n w) = Inr n' \<Longrightarrow>
   npm_id n' = npm_id n \<and> uri n' = uri n \<and> ip_address n' = ip_address n \<and> caption n' = caption n"
  by (cases "npm n")
     (auto simp: ncm_lookup_unfold ncm_lookup_unset split: sum.splits option.splits if_splits)

lemma ncm_lookup_issued:
  "issued (snd (ncm_lookup srv n w)) =
     (if npm n then issued w @ [ncm_request (npm_id n)] else issued w)"
  by (cases "npm n")
     (auto simp: ncm_lookup_unfold ncm_lookup_unset split: sum.splits option.splits)

lemma ncm_lookup_answered:
  "npm n \<Longrightarrow> ncm_answer_ok (srv (issued w @ [ncm_request (npm_id n)])) \<Longrightarrow>
   \<exists>n'. fst (ncm_lookup srv n w) = Inr n'"
  by (auto simp: ncm_lookup_unfold ncm_answer_ok_def split: sum.splits option.splits)

lemma multiple_nodes_msg_names: "\<exists>pre post. multiple_nodes_msg node = pre @ node @ post"
proof -
  have "multiple_nodes_msg node =
          (''Muliple Nodes match '' @ quote) @ node @ (quote @ '' Caption'')"
    by (simp add: multiple_nodes_msg_def)
  then show ?thesis by blast
qed

text \<open>
  Claim C1. Let the primary inventory query be answered with a list of rows. With no
  row, \<^verbatim>\<open>get_node\<close> returns a node record with every field unset and raises nothing.
  With exactly one row, which carries the four selected columns, the record returned
  has \<^verbatim>\<open>npm_id\<close>, \<^verbatim>\<open>uri\<close>, \<^verbatim>\<open>ip_address\<close> and \<^verbatim>\<open>caption\<close> from that row, and a
  record is returned whenever the NCM lookup that follows is answered. With two or
  more rows, the call fails with a \<^verbatim>\<open>ValueError\<close> whose message contains the
  identifier.
\<close>

theorem get_node_by_row_count:
  assumes ans: "srv (issued w @ [primary_request is_ip node]) = Inr data"
    and rows: "map_of data ''results'' = Some rs"
  shows "(rs = [] \<longrightarrow>
            fst (get_node is_ip srv node w) =
              Inr \<lparr>npm_id = PNone, uri = PNone, ip_address = PNone, caption = PNone,
                   ncm_id = PNone\<rparr>)
       \<and> (\<forall>r a b c d.
            rs = [r] \<and> map_of r ''NodeID'' = Some a \<and> map_of r ''Uri'' = Some b
            \<and> map_of r ''IPAddress'' = Some c \<and> map_of r ''Caption'' = Some d
            \<and> (a \<noteq> PNone \<longrightarrow>
                 ncm_answer_ok (srv (issued w @ [primary_request is_ip node, ncm_request a])))
            \<longrightarrow> (\<exists>n. fst (get_node is_ip srv node w) = Inr n
                     \<and> npm_id n = a \<and> uri n = b \<and> ip_address n = c \<and> caption n = d))
       \<and> (2 \<le> length rs \<longrightarrow>
            fst (get_node is_ip srv node w) = Inl (ValueError (multiple_nodes_msg node))
            \<and> (\<exists>pre post. multiple_nodes_msg node = pre @ node @ post))"
proof (intro conjI allI impI)
  assume "rs = []"
  then show "fst (get_node is_ip srv node w) =
      Inr \<lparr>npm_id = PNone, uri = PNone, ip_address = PNone, caption = PNone, ncm_id = PNone\<rparr>"
    using ans rows
    by (simp add: get_node_unfold primary_rows_Nil ncm_lookup_unset npm_def OrionNode_new_def)
next
  fix r a b c d
  assume h: "rs = [r] \<and> map_of r ''NodeID'' = Some a \<and> map_of r ''Uri'' = Some b
            \<and> map_of r ''IPAddress'' = Some c \<and> map_of r ''Caption'' = Some d
            \<and> (a \<noteq> PNone \<longrightarrow>
                 ncm_answer_ok (srv (issued w @ [primary_request is_ip node, ncm_request a])))"
  define n1 where "n1 = OrionNode_new\<lparr>npm_id := a, uri := b, ip_address := c, caption := d\<rparr>"
  define w1 where "w1 = w\<lparr>issued := issued w @ [primary_request is_ip node]\<rparr>"
  have prim: "primary_rows node rs OrionNode_new = Inr n1"
    using h by (simp add: primary_rows_single n1_def)
  have run: "get_node is_ip srv node w = ncm_lookup srv n1 w1"
    using ans rows prim by (simp add: get_node_unfold w1_def)
  have "\<exists>n'. fst (ncm_lookup srv n1 w1) = Inr n'"
  proof (cases "npm n1")
    case True
    then have "a \<noteq> PNone" by (simp add: npm_def n1_def)
    with h have "ncm_answer_ok (srv (issued w1 @ [ncm_request (npm_id n1)]))"
      by (simp add: w1_def n1_def)
    with True show ?thesis by (rule ncm_lookup_answered)
  next
    case False
    then show ?thesis by (simp add: ncm_lookup_unset)
  qed
  then obtain n' where n': "fst (ncm_lookup srv n1 w1) = Inr n'" ..
  from ncm_lookup_keeps_primary [OF n']
  have "npm_id n' = a \<and> uri n' = b \<and> ip_address n' = c \<and> caption n' = d"
    by (simp add: n1_def)
  with n' run
  show "\<exists>n. fst (get_node is_ip srv node w) = Inr n
          \<and> npm_id n = a \<and> uri n = b \<and> ip_address n = c \<and> caption n = d"
    by simp
next
  assume "2 \<le> length rs"
  then show "fst (get_node is_ip srv node w) = Inl (ValueError (multiple_nodes_msg node))"
    using ans rows by (simp add: get_node_unfold primary_rows_many)
next
  show "\<exists>pre post. multiple_nodes_msg node = pre @ node @ post"
    by (rule multiple_nodes_msg_names)
qed


theorem get_node_by_row_count_witness:
  "fst (get_node only_ip (inventory [] []) ''sw1'' world0) =
     Inr \<lparr>npm_id = PNone, uri = PNone, ip_address = PNone, caption = PNone, ncm_id = PNone\<rparr>
   \<and> (\<exists>n. fst (get_node only_ip (inventory [node_row] [(''results'', [[(''NodeID'', PInt 9)]])])
               ''sw1'' world0) = Inr n
          \<and> npm_id n = PInt 5 \<and> uri n = PStr ''swis://orion/Orion.Nodes/NodeID=5''
          \<and> ip_address n = PStr ''10.0.0.1'' \<and> caption n = PStr ''sw1'')
   \<and> fst (get_node only_ip (inventory [node_row, node_row] []) ''sw1'' world0) =
       Inl (ValueError (multiple_nodes_msg ''sw1''))"
  using get_node_by_row_count [of "inventory [] []" world0 only_ip "''sw1''"
          "[(''results'', [])]" "[]"]
        get_node_by_row_count [of "inventory [node_row] [(''results'', [[(''NodeID'', PInt 9)]])]"
          world0 only_ip "''sw1''" "[(''results'', [node_row])]" "[node_row]"]
        get_node_by_row_count [of "inventory [node_row, node_row] []" world0 only_ip "''sw1''"
          "[(''results'', [node_row, node_row])]" "[node_row, node_row]"]
  by (simp add: inventory_def world0_def node_row_def ncm_answer_ok_def)

text \<open>
  Claim C4. The first request \<^verbatim>\<open>get_node\<close> issues is the inventory query with the
  identifier as its parameter \<^verbatim>\<open>query_on\<close>. The text of the query ends in
  \<^verbatim>\<open>WHERE IPAddress=@query_on\<close> when \<^verbatim>\<open>is_ip\<close> accepts the identifier and in
  \<^verbatim>\<open>WHERE Caption=@query_on\<close> otherwise.
\<close>

theorem get_node_filter_field:
  "\<exists>rest. issued (snd (get_node is_ip srv node w)) =
            issued w @
            (''SELECT NodeID, Uri, IPAddress, Caption'' @ [CHR 0x0A] @
             ''        FROM Orion.Nodes'' @ [CHR 0x0A] @
             (if is_ip node then ''        WHERE IPAddress=@query_on''
              else ''        WHERE Caption=@query_on''),
             [(''query_on'', PStr node)]) # rest"
proof -
  let ?req = "primary_request is_ip node"
  have req: "?req =
      (''SELECT NodeID, Uri, IPAddress, Caption'' @ [CHR 0x0A] @
       ''        FROM Orion.Nodes'' @ [CHR 0x0A] @
       (if is_ip node then ''        WHERE IPAddress=@query_on''
        else ''        WHERE Caption=@query_on''),
       [(''query_on'', PStr node)])"
    by (simp add: primary_request_def nodes_swql_def newline_def)
  have "issued (snd (get_node is_ip srv node w)) = issued w @ [?req]
      \<or> (\<exists>x. issued (snd (get_node is_ip srv node w)) = issued w @ [?req, x])"
    by (auto simp: get_node_unfold ncm_lookup_issued split: sum.splits option.splits)
  then show ?thesis unfolding req by auto
qed

theorem get_node_filter_field_witness:
  "(\<exists>rest. issued (snd (get_node only_ip (inventory [] []) ''10.0.0.1'' world0)) =
      (''SELECT NodeID, Uri, IPAddress, Caption'' @ [CHR 0x0A] @
       ''        FROM Orion.Nodes'' @ [CHR 0x0A] @
       ''        WHERE IPAddress=@query_on'',
       [(''query_on'', PStr ''10.0.0.1'')]) # rest)
   \<and> (\<exists>rest. issued (snd (get_node only_ip (inventory [] []) ''sw1'' world0)) =
      (''SELECT NodeID, Uri, IPAddress, Caption'' @ [CHR 0x0A] @
       ''        FROM Orion.Nodes'' @ [CHR 0x0A] @
       ''        WHERE Caption=@query_on'',
       [(''query_on'', PStr ''sw1'')]) # rest)"
  using get_node_filter_field [of only_ip "inventory [] []" "''10.0.0.1''" world0]
        get_node_filter_field [of only_ip "inventory [] []" "''sw1''" world0]
  by (simp add: only_ip_def world0_def)

lemma ncm_lookup_result:
  "fst (ncm_lookup srv n w) = Inr n' \<Longrightarrow> n' = n \<or> (npm n \<and> (\<exists>v. n' = n\<lparr>ncm_id := v\<rparr>))"
  by (cases "npm n")
     (auto simp: ncm_lookup_unfold ncm_lookup_unset split: sum.splits option.splits if_splits)

lemma primary_rows_result:
  "primary_rows node rs OrionNode_new = Inr n \<Longrightarrow>
   ncm_id n = PNone \<and>
   (npm n \<longrightarrow> (\<exists>r. rs = [r] \<and> map_of r ''NodeID'' = Some (npm_id n)))"
  by (cases rs rule: list.exhaust)
     (auto simp: primary_rows_def assign_primary_def getitem_def OrionNode_new_def npm_def
        split: if_splits option.splits sum.splits)

text \<open>
  Claim C5. A node record that \<^verbatim>\<open>get_node\<close> returns with \<^verbatim>\<open>ncm_id\<close> set has
  \<^verbatim>\<open>npm_id\<close> set. The NCM lookup is issued only after the inventory query returned
  exactly one row whose \<^verbatim>\<open>NodeID\<close> is set, and with that identifier as its parameter;
  otherwise the inventory query is the only request.
\<close>

theorem get_node_ncm_id_only_with_npm_id:
  "(\<forall>n. fst (get_node is_ip srv node w) = Inr n \<and> ncm_id n \<noteq> PNone \<longrightarrow> npm_id n \<noteq> PNone)
   \<and> (issued (snd (get_node is_ip srv node w)) = issued w @ [primary_request is_ip node]
       \<or> (\<exists>data r a.
             srv (issued w @ [primary_request is_ip node]) = Inr data
             \<and> map_of data ''results'' = Some [r]
             \<and> map_of r ''NodeID'' = Some a \<and> a \<noteq> PNone
             \<and> issued (snd (get_node is_ip srv node w)) =
                 issued w @ [primary_request is_ip node, ncm_request a]))"
proof (intro conjI allI impI)
  fix n
  assume h: "fst (get_node is_ip srv node w) = Inr n \<and> ncm_id n \<noteq> PNone"
  then obtain rs n1 where
    prim: "primary_rows node rs OrionNode_new = Inr n1"
    and sec: "fst (ncm_lookup srv n1 (w\<lparr>issued := issued w @ [primary_request is_ip node]\<rparr>)) = Inr n"
    by (auto simp: get_node_unfold split: sum.splits option.splits)
  from primary_rows_result [OF prim] have n1: "ncm_id n1 = PNone" by simp
  from ncm_lookup_result [OF sec] h n1
  have "npm n1" and "npm_id n = npm_id n1" by auto
  then show "npm_id n \<noteq> PNone" by (simp add: npm_def)
next
  let ?req = "primary_request is_ip node"
  let ?w1 = "w\<lparr>issued := issued w @ [?req]\<rparr>"
  show "issued (snd (get_node is_ip srv node w)) = issued w @ [?req]
       \<or> (\<exists>data r a.
             srv (issued w @ [?req]) = Inr data
             \<and> map_of data ''results'' = Some [r]
             \<and> map_of r ''NodeID'' = Some a \<and> a \<noteq> PNone
             \<and> issued (snd (get_node is_ip srv node w)) = issued w @ [?req, ncm_request a])"
  proof (cases "srv (issued w @ [?req])")
    case (Inl e)
    then show ?thesis by (simp add: get_node_unfold)
  next
    case (Inr data)
    show ?thesis
    proof (cases "map_of data ''results''")
      case None
      with Inr show ?thesis by (simp add: get_node_unfold)
    next
      case (Some rs)
      show ?thesis
      proof (cases "primary_rows node rs OrionNode_new")
        case (Inl e)
        with Inr Some show ?thesis by (simp add: get_node_unfold)
      next
        case prim: (Inr n1)
        have run: "get_node is_ip srv node w = ncm_lookup srv n1 ?w1"
          using Inr Some prim by (simp add: get_node_unfold)
        show ?thesis
        proof (cases "npm n1")
          case False
          with run show ?thesis by (simp add: ncm_lookup_issued)
        next
          case True
          with primary_rows_result [OF prim]
          obtain r where "rs = [r]" and "map_of r ''NodeID'' = Some (npm_id n1)" by auto
          moreover from True have "npm_id n1 \<noteq> PNone" by (simp add: npm_def)
          moreover from True run
          have "issued (snd (get_node is_ip srv node w)) =
                  issued w @ [?req, ncm_request (npm_id n1)]"
            by (simp add: ncm_lookup_issued)
          ultimately show ?thesis using Inr Some by blast
        qed
      qed
    qed
  qed
qed

theorem get_node_ncm_id_only_with_npm_id_witness:
  "fst (get_node only_ip (inventory [node_row] [(''results'', [[(''NodeID'', PInt 9)]])])
         ''sw1'' world0) =
     Inr \<lparr>npm_id = PInt 5, uri = PStr ''swis://orion/Orion.Nodes/NodeID=5'',
          ip_address = PStr ''10.0.0.1'', caption = PStr ''sw1'', ncm_id = PInt 9\<rparr>
   \<and> PInt 9 \<noteq> PNone \<and> PInt 5 \<noteq> PNone"
  using get_node_ncm_id_only_with_npm_id
          [of only_ip "inventory [node_row] [(''results'', [[(''NodeID'', PInt 9)]])]"
              "''sw1''" world0]
  by (simp add: get_node_unfold inventory_def world0_def node_row_def primary_request_def
      only_ip_def primary_rows_def assign_primary_def getitem_def OrionNode_new_def
      ncm_lookup_unfold npm_def ncm_request_def)

text \<open>
  Claim C9. An inventory response without the key \<^verbatim>\<open>results\<close> makes \<^verbatim>\<open>get_node\<close>
  raise an \<^verbatim>\<open>Exception\<close> that carries the response. An NCM response without the key
  \<^verbatim>\<open>results\<close>, after an inventory query that found one node, is tolerated: the node
  record is returned with the four inventory fields and \<^verbatim>\<open>ncm_id\<close> unset.
\<close>

theorem get_node_results_key_asymmetry:
  "(srv (issued w @ [primary_request is_ip node]) = Inr data
     \<and> map_of data ''results'' = None
     \<longrightarrow> fst (get_node is_ip srv node w) = Inl (PyException ''No results from Orion: '' data))
   \<and> (srv (issued w @ [primary_request is_ip node]) = Inr data
       \<and> map_of data ''results'' = Some [r]
       \<and> map_of r ''NodeID'' = Some a \<and> map_of r ''Uri'' = Some b
       \<and> map_of r ''IPAddress'' = Some c \<and> map_of r ''Caption'' = Some d
       \<and> a \<noteq> PNone
       \<and> srv (issued w @ [primary_request is_ip node, ncm_request a]) = Inr data2
       \<and> map_of data2 ''results'' = None
     \<longrightarrow> fst (get_node is_ip srv node w) =
           Inr \<lparr>npm_id = a, uri = b, ip_address = c, caption = d, ncm_id = PNone\<rparr>)"
proof (intro conjI impI)
  assume "srv (issued w @ [primary_request is_ip node]) = Inr data
     \<and> map_of data ''results'' = None"
  then show "fst (get_node is_ip srv node w) = Inl (PyException ''No results from Orion: '' data)"
    by (simp add: get_node_unfold)
next
  assume h: "srv (issued w @ [primary_request is_ip node]) = Inr data
       \<and> map_of data ''results'' = Some [r]
       \<and> map_of r ''NodeID'' = Some a \<and> map_of r ''Uri'' = Some b
       \<and> map_of r ''IPAddress'' = Some c \<and> map_of r ''Caption'' = Some d
       \<and> a \<noteq> PNone
       \<and> srv (issued w @ [primary_request is_ip node, ncm_request a]) = Inr data2
       \<and> map_of data2 ''results'' = None"
  define n1 where "n1 = OrionNode_new\<lparr>npm_id := a, uri := b, ip_address := c, caption := d\<rparr>"
  have prim: "primary_rows node [r] OrionNode_new = Inr n1"
    using h by (simp add: primary_rows_single n1_def)
  have npm: "npm n1" using h by (simp add: npm_def n1_def)
  have "fst (get_node is_ip srv node w) = Inr n1"
    using h prim by (simp add: get_node_unfold ncm_lookup_unfold [OF npm]) (simp add: n1_def)
  then show "fst (get_node is_ip srv node w) =
           Inr \<lparr>npm_id = a, uri = b, ip_address = c, caption = d, ncm_id = PNone\<rparr>"
    by (simp add: n1_def OrionNode_new_def)
qed

theorem get_node_results_key_asymmetry_witness:
  "fst (get_node only_ip (\<lambda>log. Inr []) ''sw1'' world0) =
     Inl (PyException ''No results from Orion: '' [])
   \<and> fst (get_node only_ip (inventory [node_row] []) ''sw1'' world0) =
       Inr \<lparr>npm_id = PInt 5, uri = PStr ''swis://orion/Orion.Nodes/NodeID=5'',
            ip_address = PStr ''10.0.0.1'', caption = PStr ''sw1'', ncm_id = PNone\<rparr>"
  using get_node_results_key_asymmetry [of "\<lambda>log. Inr []" world0 only_ip "''sw1''" "[]"]
        get_node_results_key_asymmetry [of "inventory [node_row] []" world0 only_ip "''sw1''"
          "[(''results'', [node_row])]" node_row "PInt 5"
          "PStr ''swis://orion/Orion.Nodes/NodeID=5''" "PStr ''10.0.0.1''" "PStr ''sw1''" "[]"]
  by (simp add: inventory_def world0_def node_row_def)

subsection \<open>SNMP credential lookup\<close>

lemma credential_name_resolved:
  "credential_name cfg community = Inr (resolved_name cfg community)"
proof (cases community)
  case None
  then show ?thesis
    by (simp add: credential_name_def resolved_name_def get_snmp_community_def)
next
  case (Some c)
  show ?thesis
  proof (cases "snmp_mapping cfg c")
    case None
    from std_community_entry_None [OF None]
    obtain k where "std_community_entry cfg c = Inl (KeyError k)" ..
    with None Some show ?thesis
      by (simp add: credential_name_def resolved_name_def get_snmp_community_def)
  next
    case v: (Some v)
    from std_community_entry_Some [OF v] v Some show ?thesis
      by (simp add: credential_name_def resolved_name_def get_snmp_community_def)
  qed
qed

lemma get_snmp_cred_id_unfold:
  "get_snmp_cred_id cfg srv community w =
     (case srv (issued w @ [credential_request (resolved_name cfg community)]) of
        Inl e \<Rightarrow>
          (Inl e, w\<lparr>issued := issued w @ [credential_request (resolved_name cfg community)]\<rparr>)
      | Inr orion_data \<Rightarrow>
          (case map_of orion_data ''results'' of
             None \<Rightarrow>
               (Inl (KeyError ''results''),
                w\<lparr>issued := issued w @ [credential_request (resolved_name cfg community)]\<rparr>)
           | Some rs \<Rightarrow>
               if length rs = 1 then
                 (getitem (rs ! 0) ''ID'',
                  w\<lparr>issued := issued w @ [credential_request (resolved_name cfg community)]\<rparr>)
               else
                 (Inl (ValueError ''Failed to lookup community in Orion.Credential!''),
                  w\<lparr>issued := issued w @ [credential_request (resolved_name cfg community)]\<rparr>)))"
  by (simp add: get_snmp_cred_id_def credential_name_resolved query_def credential_request_def
      getitem_def Let_def split: sum.splits option.splits)

lemma credential_request_text:
  "credential_request (resolved_name cfg community) =
     (''SELECT ID FROM Orion.Credential'' @ [CHR 0x0A] @
      ''        WHERE CredentialType=@CredentialType and Name=@name'',
      [(''CredentialType'',
        PStr ''SolarWinds.Orion.Core.Models.Credentials.SnmpCredentialsV2''),
       (''name'',
        (case community of
           None \<Rightarrow> PNone
         | Some c \<Rightarrow> PStr (case snmp_mapping cfg c of None \<Rightarrow> c | Some v \<Rightarrow> v)))])"
  by (simp add: credential_request_def credential_swql_def newline_def SnmpCredentialsV2_def
      str_param_def resolved_name_def split: option.splits)

text \<open>
  Claim C7. \<^verbatim>\<open>get_snmp_cred_id\<close> resolves its input through the standard-community
  mapping and falls back to the input itself when the mapping has no entry for it. It
  then issues exactly one request: the query
  \<^verbatim>\<open>SELECT ID FROM Orion.Credential WHERE CredentialType=@CredentialType and Name=@name\<close>
  with the SNMP v2 credential type and the resolved name as its parameters. When the
  answer holds exactly one row, the \<^verbatim>\<open>ID\<close> of that row is returned; when it holds no
  row or several rows, the call fails with
  \<^verbatim>\<open>ValueError("Failed to lookup community in Orion.Credential!")\<close>.
\<close>

theorem get_snmp_cred_id_lookup:
  "credential_name cfg community = Inr (resolved_name cfg community)
   \<and> resolved_name cfg community =
       (case community of
          None \<Rightarrow> None
        | Some c \<Rightarrow> Some (case snmp_mapping cfg c of None \<Rightarrow> c | Some v \<Rightarrow> v))
   \<and> (let name = (case community of
                     None \<Rightarrow> PNone
                   | Some c \<Rightarrow> PStr (case snmp_mapping cfg c of None \<Rightarrow> c | Some v \<Rightarrow> v));
            request =
              (''SELECT ID FROM Orion.Credential'' @ [CHR 0x0A] @
               ''        WHERE CredentialType=@CredentialType and Name=@name'',
               [(''CredentialType'',
                 PStr ''SolarWinds.Orion.Core.Models.Credentials.SnmpCredentialsV2''),
                (''name'', name)])
        in issued (snd (get_snmp_cred_id cfg srv community w)) = issued w @ [request]
           \<and> (srv (issued w @ [request]) = Inr orion_data
               \<and> map_of orion_data ''results'' = Some rs \<longrightarrow>
                 (\<forall>r v. rs = [r] \<and> map_of r ''ID'' = Some v \<longrightarrow>
                    fst (get_snmp_cred_id cfg srv community w) = Inr v)
                 \<and> (length rs \<noteq> 1 \<longrightarrow>
                      fst (get_snmp_cred_id cfg srv community w) =
                        Inl (ValueError ''Failed to lookup community in Orion.Credential!''))))"
proof -
  let ?req = "credential_request (resolved_name cfg community)"
  have name: "credential_name cfg community = Inr (resolved_name cfg community)"
    by (rule credential_name_resolved)
  have resolved: "resolved_name cfg community =
       (case community of
          None \<Rightarrow> None
        | Some c \<Rightarrow> Some (case snmp_mapping cfg c of None \<Rightarrow> c | Some v \<Rightarrow> v))"
    by (simp add: resolved_name_def split: option.splits)
  have log: "issued (snd (get_snmp_cred_id cfg srv community w)) = issued w @ [?req]"
    by (simp add: get_snmp_cred_id_unfold split: sum.splits option.splits)
  have one: "fst (get_snmp_cred_id cfg srv community w) = Inr v"
    if "srv (issued w @ [?req]) = Inr orion_data" "map_of orion_data ''results'' = Some rs"
      "rs = [r]" "map_of r ''ID'' = Some v" for r v
    using that by (simp add: get_snmp_cred_id_unfold getitem_def)
  have other: "fst (get_snmp_cred_id cfg srv community w) =
                 Inl (ValueError ''Failed to lookup community in Orion.Credential!'')"
    if "srv (issued w @ [?req]) = Inr orion_data" "map_of orion_data ''results'' = Some rs"
      "length rs \<noteq> 1"
    using that by (simp add: get_snmp_cred_id_unfold)
  have rest: "issued (snd (get_snmp_cred_id cfg srv community w)) = issued w @ [?req]
           \<and> (srv (issued w @ [?req]) = Inr orion_data
               \<and> map_of orion_data ''results'' = Some rs \<longrightarrow>
                 (\<forall>r v. rs = [r] \<and> map_of r ''ID'' = Some v \<longrightarrow>
                    fst (get_snmp_cred_id cfg srv community w) = Inr v)
                 \<and> (length rs \<noteq> 1 \<longrightarrow>
                      fst (get_snmp_cred_id cfg srv community w) =
                        Inl (ValueError ''Failed to lookup community in Orion.Credential!'')))"
    using log one other by blast
  show ?thesis
    unfolding Let_def
    by (rule conjI [OF name conjI [OF resolved rest [unfolded credential_request_text]]])
qed

theorem get_snmp_cred_id_lookup_witness:
  "fst (get_snmp_cred_id cfg_example (credential_table ''s3cret'' [[(''ID'', PInt 3)]])
          (Some ''ro'') world0) = Inr (PInt 3)
   \<and> fst (get_snmp_cred_id cfg_example (credential_table ''s3cret'' [[(''ID'', PInt 3)]])
          (Some ''s3cret'') world0) = Inr (PInt 3)
   \<and> fst (get_snmp_cred_id cfg_example (credential_table ''s3cret'' [[(''ID'', PInt 3)]])
          (Some ''zz'') world0) =
       Inl (ValueError ''Failed to lookup community in Orion.Credential!'')
   \<and> fst (get_snmp_cred_id cfg_example
            (credential_table ''s3cret'' [[(''ID'', PInt 3)], [(''ID'', PInt 4)]])
            (Some ''ro'') world0) =
       Inl (ValueError ''Failed to lookup community in Orion.Credential!'')"
  using get_snmp_cred_id_lookup
          [of cfg_example "Some ''ro''" "credential_table ''s3cret'' [[(''ID'', PInt 3)]]"
              world0 "[(''results'', [[(''ID'', PInt 3)]])]" "[[(''ID'', PInt 3)]]"]
        get_snmp_cred_id_lookup
          [of cfg_example "Some ''s3cret''" "credential_table ''s3cret'' [[(''ID'', PInt 3)]]"
              world0 "[(''results'', [[(''ID'', PInt 3)]])]" "[[(''ID'', PInt 3)]]"]
        get_snmp_cred_id_lookup
          [of cfg_example "Some ''zz''" "credential_table ''s3cret'' [[(''ID'', PInt 3)]]"
              world0 "[(''results'', [])]" "[]"]
        get_snmp_cred_id_lookup
          [of cfg_example "Some ''ro''"
              "credential_table ''s3cret'' [[(''ID'', PInt 3)], [(''ID'', PInt 4)]]"
              world0 "[(''results'', [[(''ID'', PInt 3)], [(''ID'', PInt 4)]])]"
              "[[(''ID'', PInt 3)], [(''ID'', PInt 4)]]"]
  by (simp add: credential_table_def snmp_mapping_def cfg_example_def world0_def Let_def)

subsection \<open>The action \<^verbatim>\<open>get_node_id\<close>\<close>

text \<open>
  Claim C8. When the query of \<^verbatim>\<open>get_node_id\<close> raises, the handler does not produce an
  empty result: it raises \<^verbatim>\<open>UnboundLocalError\<close> for the result variable that was
  never bound, so neither the query step nor \<^verbatim>\<open>run\<close> returns a mapping. A query that
  is answered, with rows or without, has its response returned as it is.
\<close>

theorem run_query_failure_unbound:
  "(srv (issued w @ [(node_id_swql matchtype matchstring, [])]) = Inl e \<longrightarrow>
      fst (run_query srv matchtype matchstring w) = Inl (UnboundLocalError ''orion_data'')
      \<and> (\<forall>d. fst (run_query srv matchtype matchstring w) \<noteq> Inr d)
      \<and> (\<forall>d. fst (run srv matchtype matchstring w) \<noteq> Inr d))
   \<and> (srv (issued w @ [(node_id_swql matchtype matchstring, [])]) = Inr orion_data \<longrightarrow>
        fst (run_query srv matchtype matchstring w) = Inr orion_data)"
  by (simp add: run_query_def run_def connect_without_argument_def query_def Let_def)

theorem run_query_failure_unbound_witness:
  "fst (run_query (\<lambda>log. Inl (TransportError ''connection refused'')) (Some ''caption'')
          (Some ''sw1'') world0) = Inl (UnboundLocalError ''orion_data'')
   \<and> fst (run_query (\<lambda>log. Inr [(''results'', [])]) (Some ''caption'') (Some ''sw1'') world0) =
       Inr [(''results'', [])]"
  using run_query_failure_unbound [of "\<lambda>log. Inl (TransportError ''connection refused'')"
          world0 "Some ''caption''" "Some ''sw1''" "TransportError ''connection refused''"]
        run_query_failure_unbound [of "\<lambda>log. Inr [(''results'', [])]"
          world0 "Some ''caption''" "Some ''sw1''" _ "[(''results'', [])]"]
  by simp

subsection \<open>Waiting for an NCM transfer\<close>

lemma poll_transfer_error:
  "srv (issued w @ [transfer_request tid]) = Inl e \<Longrightarrow>
   poll_transfer srv tid d w =
     Some (Inl e, w\<lparr>issued := issued w @ [transfer_request tid]\<rparr>)"
  by (subst poll_transfer.simps) (simp add: query_def transfer_request_def Let_def)

lemma poll_transfer_no_status:
  "srv (issued w @ [transfer_request tid]) = Inr data \<Longrightarrow>
   first_row_item data ''Status'' = Inl e \<Longrightarrow>
   poll_transfer srv tid d w =
     Some (Inl e, w\<lparr>issued := issued w @ [transfer_request tid]\<rparr>)"
  by (subst poll_transfer.simps) (simp add: query_def transfer_request_def Let_def)
















text \<open>
  Claim C10. When the status query of a transfer is answered with no row, the subscript
  \<^verbatim>\<open>[0]\<close> of line 234 raises \<^verbatim>\<open>IndexError\<close>, which nothing catches: the call fails
  after that one request, without a sleep and without another poll.
\<close>

theorem get_ncm_transfer_results_no_rows:
  "srv (issued w @ [transfer_request tid]) = Inr data \<and> map_of data ''results'' = Some []
   \<longrightarrow> get_ncm_transfer_results srv tid d w =
         Some (Inl IndexError, w\<lparr>issued := issued w @ [transfer_request tid]\<rparr>)"
proof
  assume h: "srv (issued w @ [transfer_request tid]) = Inr data
             \<and> map_of data ''results'' = Some []"
  then have "first_row_item data ''Status'' = Inl IndexError"
    by (simp add: first_row_item_def getitem_def)
  with h have "poll_transfer srv tid d w =
      Some (Inl IndexError, w\<lparr>issued := issued w @ [transfer_request tid]\<rparr>)"
    by (simp add: poll_transfer_no_status)
  then show "get_ncm_transfer_results srv tid d w =
         Some (Inl IndexError, w\<lparr>issued := issued w @ [transfer_request tid]\<rparr>)"
    by (simp add: get_ncm_transfer_results_def)
qed

theorem get_ncm_transfer_results_no_rows_witness:
  "get_ncm_transfer_results (credentials []) (PInt 7) 10 world0 =
     Some (Inl IndexError, \<lparr>issued = [transfer_request (PInt 7)], slept = []\<rparr>)"
  using get_ncm_transfer_results_no_rows
          [of "credentials []" world0 "PInt 7" "[(''results'', [])]" 10]
  by (simp add: credentials_def world0_def)

end
